theory Spec2Isabelle
  imports Main
begin

section \<open>Values, managed objects and errors\<close>

text \<open>
  The module \<^verbatim>\<open>ucsm_apis/admin/auth.py\<close> is a thin layer over the UCS Manager SDK: every
  function builds or fetches a managed object, stages it on a session handle and commits.
  Python values that travel through keyword arguments are dynamically typed; the ones
  this module passes on are \<^verbatim>\<open>None\<close>, booleans, integers and strings.
\<close>

datatype pyval = PyNone | PyBool bool | PyInt int | PyStr string

text \<open>
  A managed object: its class, its distinguished name (the path in the remote object
  tree) and its properties. An attribute that was never set reads \<^verbatim>\<open>None\<close>, so the
  properties are a total function with \<open>PyNone\<close> as the value of an unset one.
\<close>

record mo =
  class_id :: string
  dn :: string
  props :: "string \<Rightarrow> pyval"

text \<open>
  \<open>UcsOperationError\<close> carries the name of the failing operation and a message, as the
  source constructs it. \<open>UcsException\<close> is the failure of a commit, which the module never
  catches or translates. \<open>TypeError\<close> and \<open>IndexError\<close> are Python's own: the interpreter
  raises them when the arguments of a call do not bind to the parameters, and when a
  tuple is indexed by something that is not an index or is out of range.
\<close>

datatype error = UcsOperationError string string | UcsException string | TypeError | IndexError

text \<open>A keyword parameter with a default: \<open>None\<close> stands for "not supplied".\<close>

definition dflt :: "'a \<Rightarrow> 'a option \<Rightarrow> 'a" where
  "dflt d a = (case a of None \<Rightarrow> d | Some v \<Rightarrow> v)"

subsection \<open>The SDK's managed-object operations\<close>

text \<open>
  Modelled from the spec: \<^verbatim>\<open>ManagedObject.set_prop_multiple\<close> belongs to the SDK, which
  the repository does not contain. The spec describes it as an overlay of a mapping of
  property name to value onto the record, applied key by key.
\<close>

definition set_prop_multiple :: "mo \<Rightarrow> (string \<times> pyval) list \<Rightarrow> mo" where
  "set_prop_multiple m kwargs =
     fold (\<lambda>(k, v) m'. m'\<lparr>props := (props m')(k := v)\<rparr>) kwargs m"

text \<open>
  Modelled from the spec: \<^verbatim>\<open>ManagedObject.check_prop_match\<close> belongs to the SDK. The spec:
  it compares every key of the expected properties against the record's corresponding
  field and holds only if all match.
\<close>

fun check_prop_match :: "mo \<Rightarrow> (string \<times> pyval) list \<Rightarrow> bool" where
  "check_prop_match m [] = True"
| "check_prop_match m ((k, v) # kwargs) =
     (if props m k = v then check_prop_match m kwargs else False)"

text \<open>
  Modelled from the spec: the constructor of a managed object belongs to the SDK. A record
  is addressed by the path of its parent followed by its relative name; every property is
  unset until a keyword argument of the constructor sets it.
\<close>

definition ManagedObject ::
  "string \<Rightarrow> string \<Rightarrow> string \<Rightarrow> (string \<times> pyval) list \<Rightarrow> mo" where
  "ManagedObject cid parent_dn rn kwargs =
     set_prop_multiple
       \<lparr>class_id = cid, dn = parent_dn @ ''/'' @ rn, props = (\<lambda>_. PyNone)\<rparr> kwargs"

text \<open>
  Modelled from the spec: class \<^verbatim>\<open>AaaDomain\<close> of the SDK. An Auth Domain is identified by
  its name under the parent path: \<^verbatim>\<open>sys/auth-realm/domain-<name>\<close>.
\<close>

definition AaaDomain :: "string \<Rightarrow> string \<Rightarrow> pyval \<Rightarrow> pyval \<Rightarrow> pyval \<Rightarrow> mo" where
  "AaaDomain parent_mo_or_dn name refresh_period session_timeout descr =
     ManagedObject ''AaaDomain'' parent_mo_or_dn (''domain-'' @ name)
       [(''name'', PyStr name),
        (''refresh_period'', refresh_period),
        (''session_timeout'', session_timeout),
        (''descr'', descr)]"

text \<open>
  Modelled from the spec: classes \<^verbatim>\<open>AaaDomainAuth\<close>, \<^verbatim>\<open>AaaAuthRealm\<close>, \<^verbatim>\<open>AaaDefaultAuth\<close>
  and \<^verbatim>\<open>AaaConsoleAuth\<close> of the SDK, each a single child of its parent. Their relative
  names are class metadata of the SDK and written nowhere in the repository, so they
  are the parameter \<open>rn_of\<close>, a table from class name to relative name.
\<close>

definition AaaDomainAuth ::
  "(string \<Rightarrow> string) \<Rightarrow> mo \<Rightarrow> pyval \<Rightarrow> pyval \<Rightarrow> pyval \<Rightarrow> pyval \<Rightarrow> pyval \<Rightarrow> mo" where
  "AaaDomainAuth rn_of parent_mo_or_dn realm use2_factor provider_group name descr =
     ManagedObject ''AaaDomainAuth'' (dn parent_mo_or_dn) (rn_of ''AaaDomainAuth'')
       [(''realm'', realm),
        (''use2_factor'', use2_factor),
        (''provider_group'', provider_group),
        (''name'', name),
        (''descr'', descr)]"

definition AaaAuthRealm :: "(string \<Rightarrow> string) \<Rightarrow> string \<Rightarrow> mo" where
  "AaaAuthRealm rn_of parent_mo_or_dn =
     ManagedObject ''AaaAuthRealm'' parent_mo_or_dn (rn_of ''AaaAuthRealm'') []"



section \<open>The session handle\<close>

text \<open>
  Modelled from the spec: the session handle (\<^verbatim>\<open>UcsHandle\<close>) belongs to the SDK. The spec
  gives its contract: a lookup by path that returns a record or none, three operations
  that stage a record (add, with or without "modify if already present"; update; remove)
  and a commit that applies what was staged. The handle below holds the remote object
  tree \<open>store\<close>, the staged requests \<open>to_commit\<close>, and \<open>calls\<close>, the history of the calls
  made on it, which lets a theorem say which calls an operation made and in which order.
\<close>

datatype request = AddMo mo bool | SetMo mo | RemoveMo mo

datatype call = Query string | Stage request | Commit

record handle =
  store :: "string \<Rightarrow> mo option"
  to_commit :: "request list"
  calls :: "call list"

definition query_dn :: "handle \<Rightarrow> string \<Rightarrow> mo option \<times> handle" where
  "query_dn h d = (store h d, h\<lparr>calls := calls h @ [Query d]\<rparr>)"

definition stage :: "handle \<Rightarrow> request \<Rightarrow> handle" where
  "stage h r = h\<lparr>to_commit := to_commit h @ [r], calls := calls h @ [Stage r]\<rparr>"

definition add_mo :: "handle \<Rightarrow> mo \<Rightarrow> bool \<Rightarrow> handle" where
  "add_mo h m modify_present = stage h (AddMo m modify_present)"

definition set_mo :: "handle \<Rightarrow> mo \<Rightarrow> handle" where
  "set_mo h m = stage h (SetMo m)"

definition remove_mo :: "handle \<Rightarrow> mo \<Rightarrow> handle" where
  "remove_mo h m = stage h (RemoveMo m)"

text \<open>
  Modelled from the spec: what the remote system does with a committed record is the
  SDK's and the controller's. The spec: the fields of an existing record are overwritten,
  and a field that is absent is left as it is, not forced to empty. So a field the new
  record leaves unset (\<open>PyNone\<close>) keeps the stored value.
\<close>

definition overwrite :: "mo \<Rightarrow> mo \<Rightarrow> mo" where
  "overwrite old new =
     new\<lparr>props := (\<lambda>k. if props new k = PyNone then props old k else props new k)\<rparr>"

definition upsert :: "(string \<Rightarrow> mo option) \<Rightarrow> mo \<Rightarrow> (string \<Rightarrow> mo option)" where
  "upsert s m =
     s(dn m \<mapsto> (case s (dn m) of None \<Rightarrow> m | Some old \<Rightarrow> overwrite old m))"

text \<open>
  Modelled from the spec: with "modify if already present" an add overwrites the record
  at its path rather than erroring, so without it an add fails on a path that holds a
  record. An update at a path is creation and modification in one (upsert by path). A
  remove empties the path.
\<close>

fun apply_request ::
  "request \<Rightarrow> (string \<Rightarrow> mo option) \<Rightarrow> error + (string \<Rightarrow> mo option)" where
  "apply_request (AddMo m modify_present) s =
     (if s (dn m) \<noteq> None \<and> \<not> modify_present
      then Inl (UcsException (dn m))
      else Inr (upsert s m))"
| "apply_request (SetMo m) s = Inr (upsert s m)"
| "apply_request (RemoveMo m) s = Inr (s(dn m := None))"

fun apply_requests ::
  "request list \<Rightarrow> (string \<Rightarrow> mo option) \<Rightarrow> error + (string \<Rightarrow> mo option)" where
  "apply_requests [] s = Inr s"
| "apply_requests (r # rs) s =
     (case apply_request r s of Inl e \<Rightarrow> Inl e | Inr s' \<Rightarrow> apply_requests rs s')"

text \<open>
  Modelled from the spec: a commit applies the staged requests, here in the order they
  were staged and all or none, raises when one of them fails, and leaves nothing staged.
\<close>

definition commit :: "handle \<Rightarrow> (error + unit) \<times> handle" where
  "commit h =
     (let h' = h\<lparr>to_commit := [], calls := calls h @ [Commit]\<rparr>
      in case apply_requests (to_commit h) (store h) of
           Inl e \<Rightarrow> (Inl e, h')
         | Inr s \<Rightarrow> (Inr (), h'\<lparr>store := s\<rparr>))"

section \<open>The module \<^verbatim>\<open>ucsm_apis/admin/auth.py\<close>\<close>

text \<open>
  Each function takes the handle and returns its outcome, a result or the error it raises,
  together with the handle after the call. The module constant \<^verbatim>\<open>_auth_realm_dn\<close> is
  \<open>auth_realm_dn\<close> here.

  The definitions of this section are the function bodies: their arguments are the
  parameters as Python has bound them, and \<open>kwargs\<close> is what the binding left for
  \<^verbatim>\<open>**kwargs\<close>. The binding itself, which decides what a call's keyword arguments
  become and which calls never reach the body, is the next section.
\<close>

definition auth_realm_dn :: string where
  "auth_realm_dn = ''sys/auth-realm''"

text \<open>The message \<^verbatim>\<open>"Auth Domain '%s' does not exist" % dn\<close>.\<close>

definition not_exist_msg :: "string \<Rightarrow> string" where
  "not_exist_msg d = ''Auth Domain '' @ [CHR 0x27] @ d @ [CHR 0x27] @ '' does not exist''"

text \<open>\<^verbatim>\<open>auth_domain_get(handle, name, caller="auth_domain_get")\<close>\<close>

definition auth_domain_get ::
  "handle \<Rightarrow> string \<Rightarrow> string option \<Rightarrow> (error + mo) \<times> handle" where
  "auth_domain_get h name caller =
     (let d = auth_realm_dn @ ''/domain-'' @ name;
          (r, h1) = query_dn h d
      in case r of
           None \<Rightarrow> (Inl (UcsOperationError (dflt ''auth_domain_get'' caller) (not_exist_msg d)), h1)
         | Some m \<Rightarrow> (Inr m, h1))"

text \<open>
  \<^verbatim>\<open>auth_domain_create(handle, name, refresh_period="600", session_timeout="7200",
  descr=None, **kwargs)\<close>
\<close>

definition auth_domain_create ::
  "handle \<Rightarrow> string \<Rightarrow> pyval option \<Rightarrow> pyval option \<Rightarrow> pyval \<Rightarrow> (string \<times> pyval) list
     \<Rightarrow> (error + mo) \<times> handle" where
  "auth_domain_create h name refresh_period session_timeout descr kwargs =
     (let m = AaaDomain auth_realm_dn name
                (dflt (PyStr ''600'') refresh_period)
                (dflt (PyStr ''7200'') session_timeout)
                descr;
          m1 = set_prop_multiple m kwargs;
          h1 = add_mo h m1 True;
          (r, h2) = commit h1
      in case r of Inl e \<Rightarrow> (Inl e, h2) | Inr _ \<Rightarrow> (Inr m1, h2))"

text \<open>
  \<^verbatim>\<open>auth_domain_exists(handle, name, **kwargs)\<close>. The \<^verbatim>\<open>except\<close> clause catches
  \<open>UcsOperationError\<close> only; any other error propagates.
\<close>

definition auth_domain_exists ::
  "handle \<Rightarrow> string \<Rightarrow> (string \<times> pyval) list \<Rightarrow> (error + bool \<times> mo option) \<times> handle" where
  "auth_domain_exists h name kwargs =
     (case auth_domain_get h name (Some ''auth_domain_exists'') of
        (Inl (UcsOperationError c msg), h1) \<Rightarrow> (Inr (False, None), h1)
      | (Inl e, h1) \<Rightarrow> (Inl e, h1)
      | (Inr m, h1) \<Rightarrow>
          (let mo_exists = check_prop_match m kwargs
           in (Inr (mo_exists, if mo_exists then Some m else None), h1)))"

text \<open>\<^verbatim>\<open>auth_domain_modify(handle, name, **kwargs)\<close>\<close>

definition auth_domain_modify ::
  "handle \<Rightarrow> string \<Rightarrow> (string \<times> pyval) list \<Rightarrow> (error + mo) \<times> handle" where
  "auth_domain_modify h name kwargs =
     (case auth_domain_get h name (Some ''auth_domain_modify'') of
        (Inl e, h1) \<Rightarrow> (Inl e, h1)
      | (Inr m, h1) \<Rightarrow>
          (let m1 = set_prop_multiple m kwargs;
               h2 = set_mo h1 m1;
               (r, h3) = commit h2
           in case r of Inl e \<Rightarrow> (Inl e, h3) | Inr _ \<Rightarrow> (Inr m1, h3)))"

text \<open>\<^verbatim>\<open>auth_domain_delete(handle, name)\<close>; it returns \<^verbatim>\<open>None\<close>.\<close>

definition auth_domain_delete :: "handle \<Rightarrow> string \<Rightarrow> (error + unit) \<times> handle" where
  "auth_domain_delete h name =
     (case auth_domain_get h name (Some ''auth_domain_delete'') of
        (Inl e, h1) \<Rightarrow> (Inl e, h1)
      | (Inr m, h1) \<Rightarrow>
          (let h2 = remove_mo h1 m;
               (r, h3) = commit h2
           in case r of Inl e \<Rightarrow> (Inl e, h3) | Inr _ \<Rightarrow> (Inr (), h3)))"

text \<open>
  \<^verbatim>\<open>auth_domain_realm_configure(handle, domain_name, realm="local", use2_factor=False,
  provider_group=None, name=None, descr=None, **kwargs)\<close>. The tuple \<^verbatim>\<open>("no", "yes")\<close> is
  indexed by the boolean, \<^verbatim>\<open>False\<close> being 0 and \<^verbatim>\<open>True\<close> 1.
\<close>

definition auth_domain_realm_configure ::
  "(string \<Rightarrow> string) \<Rightarrow> handle \<Rightarrow> string \<Rightarrow> pyval option \<Rightarrow> bool option \<Rightarrow> pyval \<Rightarrow> pyval
     \<Rightarrow> pyval \<Rightarrow> (string \<times> pyval) list \<Rightarrow> (error + mo) \<times> handle" where
  "auth_domain_realm_configure rn_of h domain_name realm use2_factor provider_group name
       descr kwargs =
     (case auth_domain_get h domain_name (Some ''auth_domain_realm_configure'') of
        (Inl e, h1) \<Rightarrow> (Inl e, h1)
      | (Inr obj, h1) \<Rightarrow>
          (let use2_factor' = [''no'', ''yes''] ! of_bool (dflt False use2_factor);
               m = AaaDomainAuth rn_of obj (dflt (PyStr ''local'') realm)
                     (PyStr use2_factor') provider_group name descr;
               m1 = set_prop_multiple m kwargs;
               h2 = set_mo h1 m1;
               (r, h3) = commit h2
           in case r of Inl e \<Rightarrow> (Inl e, h3) | Inr _ \<Rightarrow> (Inr m1, h3)))"

text \<open>
  \<^verbatim>\<open>native_auth_configure(handle, def_role_policy=None, def_login=None, con_login=None,
  descr=None, **kwargs)\<close>
\<close>

definition native_auth_configure ::
  "(string \<Rightarrow> string) \<Rightarrow> handle \<Rightarrow> pyval \<Rightarrow> pyval \<Rightarrow> pyval \<Rightarrow> pyval
     \<Rightarrow> (string \<times> pyval) list \<Rightarrow> (error + mo) \<times> handle" where
  "native_auth_configure rn_of h def_role_policy def_login con_login descr kwargs =
     (let m = AaaAuthRealm rn_of ''sys'';
          args = [(''def_role_policy'', def_role_policy),
                  (''def_login'', def_login),
                  (''con_login'', con_login),
                  (''descr'', descr)];
          m1 = set_prop_multiple m args;
          m2 = set_prop_multiple m1 kwargs;
          h1 = set_mo h m2;
          (r, h2) = commit h1
      in case r of Inl e \<Rightarrow> (Inl e, h2) | Inr _ \<Rightarrow> (Inr m2, h2))"



section \<open>Calls: how Python binds keyword arguments\<close>









section \<open>Example sessions\<close>

text \<open>
  Concrete inputs at which the theorems below are instantiated: a table of relative names,
  a session whose remote tree is empty, one whose tree holds the Auth Domain \<^verbatim>\<open>d1\<close>
  with the default settings, and one whose tree holds the native authentication realm.
\<close>

definition example_rn :: "string \<Rightarrow> string" where
  "example_rn c =
     (if c = ''AaaDomainAuth'' then ''domain-auth''
      else if c = ''AaaAuthRealm'' then ''auth-realm''
      else if c = ''AaaDefaultAuth'' then ''default-auth''
      else ''console-auth'')"

definition no_records :: handle where
  "no_records = \<lparr>store = (\<lambda>_. None), to_commit = [], calls = []\<rparr>"

definition d1_record :: mo where
  "d1_record = AaaDomain ''sys/auth-realm'' ''d1'' (PyStr ''600'') (PyStr ''7200'') PyNone"

definition with_d1 :: handle where
  "with_d1 = \<lparr>store = (\<lambda>_. None)(''sys/auth-realm/domain-d1'' := Some d1_record),
              to_commit = [], calls = []\<rparr>"

definition auth_realm_record :: mo where
  "auth_realm_record =
     \<lparr>class_id = ''AaaAuthRealm'', dn = ''sys/auth-realm'',
      props = (\<lambda>_. PyNone)(''def_login'' := PyStr ''ldap'', ''con_login'' := PyStr ''ldap'')\<rparr>"

definition with_auth_realm :: handle where
  "with_auth_realm =
     \<lparr>store = (\<lambda>_. None)(''sys/auth-realm'' := Some auth_realm_record),
      to_commit = [], calls = []\<rparr>"

section \<open>Properties of the SDK operations\<close>

lemma dn_set_prop_multiple: "dn (set_prop_multiple m kwargs) = dn m"
  unfolding set_prop_multiple_def
  by (induction kwargs arbitrary: m) (auto split: prod.splits)

lemma class_id_set_prop_multiple: "class_id (set_prop_multiple m kwargs) = class_id m"
  unfolding set_prop_multiple_def
  by (induction kwargs arbitrary: m) (auto split: prod.splits)

lemma set_prop_multiple_Nil: "set_prop_multiple m [] = m"
  by (simp add: set_prop_multiple_def)

lemma set_prop_multiple_Cons:
  "set_prop_multiple m ((k, v) # kwargs) = set_prop_multiple (m\<lparr>props := (props m)(k := v)\<rparr>) kwargs"
  by (simp add: set_prop_multiple_def)

lemma props_set_prop_multiple_other:
  "k \<notin> fst ` set kwargs \<Longrightarrow> props (set_prop_multiple m kwargs) k = props m k"
proof (induction kwargs arbitrary: m)
  case Nil
  show ?case by (simp add: set_prop_multiple_Nil)
next
  case (Cons a kwargs)
  obtain k' v' where a: "a = (k', v')" by (cases a)
  from Cons.prems a have "k \<noteq> k'" and "k \<notin> fst ` set kwargs" by auto
  with Cons.IH a show ?case by (simp add: set_prop_multiple_Cons)
qed

lemma props_set_prop_multiple_mem:
  "distinct (map fst kwargs) \<Longrightarrow> (k, v) \<in> set kwargs \<Longrightarrow> props (set_prop_multiple m kwargs) k = v"
proof (induction kwargs arbitrary: m)
  case Nil
  then show ?case by simp
next
  case (Cons a kwargs)
  obtain k' v' where a: "a = (k', v')" by (cases a)
  show ?case
  proof (cases "(k, v) = a")
    case True
    with Cons.prems a have "k \<notin> fst ` set kwargs" by auto
    with True a show ?thesis
      by (simp add: set_prop_multiple_Cons props_set_prop_multiple_other)
  next
    case False
    with Cons.prems have "(k, v) \<in> set kwargs" "distinct (map fst kwargs)" by auto
    with Cons.IH a show ?thesis by (simp add: set_prop_multiple_Cons)
  qed
qed

lemma check_prop_match_iff:
  "check_prop_match m kwargs \<longleftrightarrow> (\<forall>(k, v) \<in> set kwargs. props m k = v)"
  by (induction kwargs) (auto split: if_splits)

lemma dn_AaaDomain: "dn (AaaDomain p name rp st descr) = p @ ''/domain-'' @ name"
  by (simp add: AaaDomain_def ManagedObject_def dn_set_prop_multiple)

lemma props_AaaDomain:
  "props (AaaDomain p name rp st descr) =
     (\<lambda>_. PyNone)(''name'' := PyStr name, ''refresh_period'' := rp,
        ''session_timeout'' := st, ''descr'' := descr)"
  by (simp add: AaaDomain_def ManagedObject_def set_prop_multiple_def)

lemma props_AaaDomainAuth:
  "props (AaaDomainAuth rn_of obj realm u2f pg nm descr) =
     (\<lambda>_. PyNone)(''realm'' := realm, ''use2_factor'' := u2f, ''provider_group'' := pg,
        ''name'' := nm, ''descr'' := descr)"
  by (simp add: AaaDomainAuth_def ManagedObject_def set_prop_multiple_def)

lemma props_AaaAuthRealm: "props (AaaAuthRealm rn_of p) = (\<lambda>_. PyNone)"
  by (simp add: AaaAuthRealm_def ManagedObject_def set_prop_multiple_def)

lemma dn_AaaAuthRealm: "dn (AaaAuthRealm rn_of p) = p @ ''/'' @ rn_of ''AaaAuthRealm''"
  by (simp add: AaaAuthRealm_def ManagedObject_def set_prop_multiple_def)

lemma class_id_AaaAuthRealm: "class_id (AaaAuthRealm rn_of p) = ''AaaAuthRealm''"
  by (simp add: AaaAuthRealm_def ManagedObject_def set_prop_multiple_def)

lemma props_native_args:
  "props (set_prop_multiple (AaaAuthRealm rn_of p)
            [(''def_role_policy'', a1), (''def_login'', a2), (''con_login'', a3), (''descr'', a4)]) =
     (\<lambda>_. PyNone)(''def_role_policy'' := a1, ''def_login'' := a2, ''con_login'' := a3,
        ''descr'' := a4)"
  by (simp add: set_prop_multiple_def props_AaaAuthRealm)

lemma props_overwrite:
  "props (overwrite old new) k = (if props new k = PyNone then props old k else props new k)"
  by (simp add: overwrite_def)

lemma dn_overwrite: "dn (overwrite old new) = dn new"
  by (simp add: overwrite_def)

lemma overwrite_same: "overwrite m m = m"
  by (simp add: overwrite_def)

lemma overwrite_again: "overwrite (overwrite old m) m = overwrite old m"
  by (simp add: overwrite_def fun_eq_iff)

lemma upsert_at:
  "upsert s m (dn m) = Some (case s (dn m) of None \<Rightarrow> m | Some old \<Rightarrow> overwrite old m)"
  by (simp add: upsert_def)

lemma props_upsert_set:
  "props m k \<noteq> PyNone \<Longrightarrow> \<exists>r. upsert s m (dn m) = Some r \<and> props r k = props m k \<and> dn r = dn m"
  by (cases "s (dn m)") (simp_all add: upsert_def props_overwrite dn_overwrite)

lemma upsert_again: "upsert (upsert s m) m = upsert s m"
  by (cases "s (dn m)") (simp_all add: upsert_def overwrite_same overwrite_again dn_overwrite)

lemma upsert_other: "d \<noteq> dn m \<Longrightarrow> upsert s m d = s d"
  by (simp add: upsert_def)

lemma commit_stage:
  "to_commit h = [] \<Longrightarrow>
   commit (stage h r) =
     (case apply_request r (store h) of
        Inl e \<Rightarrow> (Inl e, h\<lparr>to_commit := [], calls := calls h @ [Stage r, Commit]\<rparr>)
      | Inr s \<Rightarrow> (Inr (), h\<lparr>to_commit := [], calls := calls h @ [Stage r, Commit], store := s\<rparr>))"
  by (simp add: commit_def stage_def Let_def split: sum.splits)

lemma commit_stage_ok:
  "to_commit h = [] \<Longrightarrow> apply_request r (store h) = Inr s \<Longrightarrow>
   commit (stage h r) =
     (Inr (), h\<lparr>to_commit := [], calls := calls h @ [Stage r, Commit], store := s\<rparr>)"
  by (simp add: commit_stage)

lemma calls_commit_stage:
  "calls (snd (commit (stage h r))) = calls h @ [Stage r, Commit]"
  by (simp add: commit_def stage_def Let_def split: sum.splits)

lemma apply_requests_error: "apply_requests rs s = Inl e \<Longrightarrow> \<exists>d. e = UcsException d"
  by (induction rs arbitrary: s) (auto split: sum.splits if_splits request.splits elim: apply_request.elims)

lemma commit_error: "fst (commit h) = Inl e \<Longrightarrow> \<exists>d. e = UcsException d"
  by (auto simp: commit_def Let_def split: sum.splits dest: apply_requests_error)

lemma snd_submit:
  "snd (case commit h of (Inl e, h2) \<Rightarrow> (Inl e, h2) | (Inr u, h2) \<Rightarrow> (Inr m, h2)) = snd (commit h)"
  by (simp split: prod.splits sum.splits)

lemma fst_submit_error:
  "fst (case commit h of (Inl e, h2) \<Rightarrow> (Inl e, h2) | (Inr u, h2) \<Rightarrow> (Inr m, h2)) \<noteq>
     Inl (UcsOperationError c msg)"
proof (cases "commit h")
  case (Pair r h2)
  show ?thesis
  proof (cases r)
    case (Inl e)
    with Pair have "fst (commit h) = Inl e" by simp
    then obtain d where "e = UcsException d" using commit_error by blast
    with Pair Inl show ?thesis by simp
  next
    case (Inr u)
    with Pair show ?thesis by simp
  qed
qed


section \<open>The operations, step by step\<close>

lemma auth_domain_get_absent:
  "store h (auth_realm_dn @ ''/domain-'' @ name) = None \<Longrightarrow>
   auth_domain_get h name caller =
     (Inl (UcsOperationError (dflt ''auth_domain_get'' caller)
        (not_exist_msg (auth_realm_dn @ ''/domain-'' @ name))),
      h\<lparr>calls := calls h @ [Query (auth_realm_dn @ ''/domain-'' @ name)]\<rparr>)"
  by (simp add: auth_domain_get_def query_dn_def Let_def)

lemma auth_domain_get_present:
  "store h (auth_realm_dn @ ''/domain-'' @ name) = Some m \<Longrightarrow>
   auth_domain_get h name caller =
     (Inr m, h\<lparr>calls := calls h @ [Query (auth_realm_dn @ ''/domain-'' @ name)]\<rparr>)"
  by (simp add: auth_domain_get_def query_dn_def Let_def)


lemma auth_domain_create_ok:
  assumes "to_commit h = []"
  shows "auth_domain_create h name refresh_period session_timeout descr kwargs =
     (let m = set_prop_multiple
                (AaaDomain auth_realm_dn name (dflt (PyStr ''600'') refresh_period)
                   (dflt (PyStr ''7200'') session_timeout) descr) kwargs
      in (Inr m, h\<lparr>to_commit := [], calls := calls h @ [Stage (AddMo m True), Commit],
                     store := upsert (store h) m\<rparr>))"
  using assms
  by (simp add: auth_domain_create_def add_mo_def commit_stage_ok Let_def)

lemma auth_domain_exists_eq:
  "auth_domain_exists h name kwargs =
     (Inr (case store h (auth_realm_dn @ ''/domain-'' @ name) of
             None \<Rightarrow> (False, None)
           | Some m \<Rightarrow> if check_prop_match m kwargs then (True, Some m) else (False, None)),
      h\<lparr>calls := calls h @ [Query (auth_realm_dn @ ''/domain-'' @ name)]\<rparr>)"
  by (cases "store h (auth_realm_dn @ ''/domain-'' @ name)")
    (simp_all add: auth_domain_exists_def auth_domain_get_absent auth_domain_get_present Let_def)


lemma auth_domain_modify_ok:
  assumes "store h (auth_realm_dn @ ''/domain-'' @ name) = Some m" and "to_commit h = []"
  shows "auth_domain_modify h name kwargs =
     (Inr (set_prop_multiple m kwargs),
      h\<lparr>to_commit := [],
         calls := calls h @ [Query (auth_realm_dn @ ''/domain-'' @ name),
                             Stage (SetMo (set_prop_multiple m kwargs)), Commit],
         store := upsert (store h) (set_prop_multiple m kwargs)\<rparr>)"
  using assms
  by (simp add: auth_domain_modify_def auth_domain_get_present set_mo_def commit_stage_ok Let_def)

lemma auth_domain_delete_ok:
  assumes "store h (auth_realm_dn @ ''/domain-'' @ name) = Some m" and "to_commit h = []"
  shows "auth_domain_delete h name =
     (Inr (),
      h\<lparr>to_commit := [],
         calls := calls h @ [Query (auth_realm_dn @ ''/domain-'' @ name),
                             Stage (RemoveMo m), Commit],
         store := (store h)(dn m := None)\<rparr>)"
  using assms
  by (simp add: auth_domain_delete_def auth_domain_get_present remove_mo_def commit_stage_ok
      Let_def)

lemma yes_no: "[''no'', ''yes''] ! of_bool b = (if b then ''yes'' else ''no'')"
  by simp

lemma auth_domain_realm_configure_present:
  assumes "store h (auth_realm_dn @ ''/domain-'' @ domain_name) = Some obj"
  shows "auth_domain_realm_configure rn_of h domain_name realm use2_factor provider_group
           name descr kwargs =
     (case commit (stage (h\<lparr>calls := calls h @ [Query (auth_realm_dn @ ''/domain-'' @ domain_name)]\<rparr>)
             (SetMo (set_prop_multiple
                (AaaDomainAuth rn_of obj (dflt (PyStr ''local'') realm)
                   (PyStr ([''no'', ''yes''] ! of_bool (dflt False use2_factor)))
                   provider_group name descr) kwargs))) of
        (Inl e, h3) \<Rightarrow> (Inl e, h3)
      | (Inr _, h3) \<Rightarrow>
          (Inr (set_prop_multiple
                (AaaDomainAuth rn_of obj (dflt (PyStr ''local'') realm)
                   (PyStr ([''no'', ''yes''] ! of_bool (dflt False use2_factor)))
                   provider_group name descr) kwargs), h3))"
  using assms
  by (simp add: auth_domain_realm_configure_def auth_domain_get_present set_mo_def Let_def
      split: prod.splits sum.splits)

lemma native_auth_configure_eq:
  "native_auth_configure rn_of h def_role_policy def_login con_login descr kwargs =
     (case commit (stage h (SetMo (set_prop_multiple
              (set_prop_multiple (AaaAuthRealm rn_of ''sys'')
                 [(''def_role_policy'', def_role_policy), (''def_login'', def_login),
                  (''con_login'', con_login), (''descr'', descr)]) kwargs))) of
        (Inl e, h2) \<Rightarrow> (Inl e, h2)
      | (Inr _, h2) \<Rightarrow>
          (Inr (set_prop_multiple
              (set_prop_multiple (AaaAuthRealm rn_of ''sys'')
                 [(''def_role_policy'', def_role_policy), (''def_login'', def_login),
                  (''con_login'', con_login), (''descr'', descr)]) kwargs), h2))"
  by (simp add: native_auth_configure_def set_mo_def Let_def split: prod.splits sum.splits)



section \<open>The binding of a call\<close>



























section \<open>The claims\<close>

text \<open>
  Claim C1. On a handle with nothing staged, \<open>auth_domain_create\<close> called with a name and no
  other argument builds the Auth Domain record at \<^verbatim>\<open>sys/auth-realm/domain-<name>\<close> with
  \<^verbatim>\<open>refresh_period\<close> "600" and \<^verbatim>\<open>session_timeout\<close> "7200", stages it as an add with "modify
  if already present", commits and returns the record. A lookup of the same name right
  after returns a record with the same two values. This holds whether or not the name
  was present before, so in particular for every fresh name.
\<close>

theorem auth_domain_create_defaults:
  assumes "to_commit h = []"
  shows "\<exists>m h1 m' h2.
           auth_domain_create h name None None PyNone [] = (Inr m, h1)
         \<and> dn m = ''sys/auth-realm/domain-'' @ name
         \<and> props m ''refresh_period'' = PyStr ''600''
         \<and> props m ''session_timeout'' = PyStr ''7200''
         \<and> calls h1 = calls h @ [Stage (AddMo m True), Commit]
         \<and> to_commit h1 = []
         \<and> auth_domain_get h1 name None = (Inr m', h2)
         \<and> props m' ''refresh_period'' = PyStr ''600''
         \<and> props m' ''session_timeout'' = PyStr ''7200''"
proof -
  define m where "m = AaaDomain auth_realm_dn name (PyStr ''600'') (PyStr ''7200'') PyNone"
  define h1 where "h1 = h\<lparr>to_commit := [], calls := calls h @ [Stage (AddMo m True), Commit],
                     store := upsert (store h) m\<rparr>"
  have dn_m: "dn m = ''sys/auth-realm/domain-'' @ name"
    by (simp add: m_def dn_AaaDomain auth_realm_dn_def)
  have rp: "props m ''refresh_period'' = PyStr ''600''"
    and st: "props m ''session_timeout'' = PyStr ''7200''"
    by (simp_all add: m_def props_AaaDomain)
  have create: "auth_domain_create h name None None PyNone [] = (Inr m, h1)"
    using assms by (simp add: auth_domain_create_ok set_prop_multiple_Nil dflt_def m_def h1_def Let_def)
  obtain r where r: "upsert (store h) m (dn m) = Some r"
    by (simp add: upsert_at)
  have r_rp: "props r ''refresh_period'' = PyStr ''600''"
    and r_st: "props r ''session_timeout'' = PyStr ''7200''"
    using r rp st by (auto simp: upsert_at props_overwrite split: option.splits)
  have "store h1 (auth_realm_dn @ ''/domain-'' @ name) = Some r"
    using r dn_m by (simp add: h1_def auth_realm_dn_def)
  then have get: "auth_domain_get h1 name None =
      (Inr r, h1\<lparr>calls := calls h1 @ [Query (auth_realm_dn @ ''/domain-'' @ name)]\<rparr>)"
    by (rule auth_domain_get_present)
  have "calls h1 = calls h @ [Stage (AddMo m True), Commit]" "to_commit h1 = []"
    by (simp_all add: h1_def)
  with create dn_m rp st get r_rp r_st show ?thesis by blast
qed

text \<open>The name \<^verbatim>\<open>d1\<close> on a session whose remote tree holds no record.\<close>

theorem auth_domain_create_defaults_witness:
  "to_commit no_records = []
   \<and> (\<exists>m h1 m' h2.
           auth_domain_create no_records ''d1'' None None PyNone [] = (Inr m, h1)
         \<and> dn m = ''sys/auth-realm/domain-'' @ ''d1''
         \<and> props m ''refresh_period'' = PyStr ''600''
         \<and> props m ''session_timeout'' = PyStr ''7200''
         \<and> calls h1 = calls no_records @ [Stage (AddMo m True), Commit]
         \<and> to_commit h1 = []
         \<and> auth_domain_get h1 ''d1'' None = (Inr m', h2)
         \<and> props m' ''refresh_period'' = PyStr ''600''
         \<and> props m' ''session_timeout'' = PyStr ''7200'')
   \<and> fst (auth_domain_create no_records ''d1'' None None PyNone []) = Inr d1_record
   \<and> calls (snd (auth_domain_create no_records ''d1'' None None PyNone [])) =
       [Stage (AddMo d1_record True), Commit]
   \<and> fst (auth_domain_get (snd (auth_domain_create no_records ''d1'' None None PyNone []))
            ''d1'' None) = Inr d1_record
   \<and> props d1_record ''refresh_period'' = PyStr ''600''
   \<and> props d1_record ''session_timeout'' = PyStr ''7200''"
proof -
  have h: "to_commit no_records = []" by (simp add: no_records_def)
  have run: "auth_domain_create no_records ''d1'' None None PyNone [] =
      (Inr d1_record,
       \<lparr>store = (\<lambda>_. None)(''sys/auth-realm/domain-d1'' := Some d1_record), to_commit = [],
        calls = [Stage (AddMo d1_record True), Commit]\<rparr>)"
    by (simp add: auth_domain_create_ok h Let_def dflt_def set_prop_multiple_Nil d1_record_def
        auth_realm_dn_def no_records_def upsert_def dn_AaaDomain)
  have get: "fst (auth_domain_get (snd (auth_domain_create no_records ''d1'' None None PyNone []))
      ''d1'' None) = Inr d1_record"
    by (simp add: run auth_domain_get_def query_dn_def auth_realm_dn_def Let_def)
  have vals: "props d1_record ''refresh_period'' = PyStr ''600''"
    "props d1_record ''session_timeout'' = PyStr ''7200''"
    by (simp_all add: d1_record_def props_AaaDomain)
  have calls: "calls (snd (auth_domain_create no_records ''d1'' None None PyNone [])) =
       [Stage (AddMo d1_record True), Commit]"
    by (simp add: run)
  have fst: "fst (auth_domain_create no_records ''d1'' None None PyNone []) = Inr d1_record"
    by (simp add: run)
  from auth_domain_create_defaults [OF h, of "''d1''"] h fst calls get vals
  show ?thesis by (intro conjI)
qed

text \<open>
  Claim C2. On a handle with nothing staged, \<^verbatim>\<open>auth_domain_create(h, name,
  session_timeout=v)\<close> called twice in succession succeeds both times and returns the same
  record; the second call leaves the remote tree exactly as the first one left it, with
  one record at \<^verbatim>\<open>sys/auth-realm/domain-<name>\<close> whose \<^verbatim>\<open>session_timeout\<close> is \<open>v\<close>, and every
  other path as it was before the first call.
\<close>

theorem auth_domain_create_idempotent:
  assumes "to_commit h = []" and "v \<noteq> PyNone"
  shows "\<exists>m h1 h2 r.
           auth_domain_create h name None (Some v) PyNone [] = (Inr m, h1)
         \<and> auth_domain_create h1 name None (Some v) PyNone [] = (Inr m, h2)
         \<and> store h2 = store h1
         \<and> store h2 (''sys/auth-realm/domain-'' @ name) = Some r
         \<and> dn r = ''sys/auth-realm/domain-'' @ name
         \<and> props r ''session_timeout'' = v
         \<and> (\<forall>d. d \<noteq> ''sys/auth-realm/domain-'' @ name \<longrightarrow> store h2 d = store h d)"
proof -
  define m where "m = AaaDomain auth_realm_dn name (PyStr ''600'') v PyNone"
  define h1 where "h1 = h\<lparr>to_commit := [], calls := calls h @ [Stage (AddMo m True), Commit],
                     store := upsert (store h) m\<rparr>"
  define h2 where "h2 = h1\<lparr>to_commit := [], calls := calls h1 @ [Stage (AddMo m True), Commit],
                     store := upsert (store h1) m\<rparr>"
  have dn_m: "dn m = ''sys/auth-realm/domain-'' @ name"
    by (simp add: m_def dn_AaaDomain auth_realm_dn_def)
  have st: "props m ''session_timeout'' = v"
    by (simp add: m_def props_AaaDomain)
  have first: "auth_domain_create h name None (Some v) PyNone [] = (Inr m, h1)"
    using assms(1)
    by (simp add: auth_domain_create_ok set_prop_multiple_Nil dflt_def m_def h1_def Let_def)
  have "to_commit h1 = []" by (simp add: h1_def)
  then have second: "auth_domain_create h1 name None (Some v) PyNone [] = (Inr m, h2)"
    by (simp add: auth_domain_create_ok set_prop_multiple_Nil dflt_def m_def h2_def Let_def)
  have same: "store h2 = store h1"
    by (simp add: h2_def h1_def upsert_again)
  from st assms(2) obtain r where r: "upsert (store h) m (dn m) = Some r"
    and r_st: "props r ''session_timeout'' = props m ''session_timeout''" and r_dn: "dn r = dn m"
    using props_upsert_set [of m "''session_timeout''" "store h"] by auto
  have at: "store h2 (''sys/auth-realm/domain-'' @ name) = Some r"
    using r dn_m same by (simp add: h1_def)
  have other: "\<forall>d. d \<noteq> ''sys/auth-realm/domain-'' @ name \<longrightarrow> store h2 d = store h d"
    using dn_m same by (simp add: h1_def upsert_other)
  from first second same at r_dn dn_m r_st st other show ?thesis by auto
qed

text \<open>The name \<^verbatim>\<open>d1\<close> and the timeout 1000 on an empty remote tree.\<close>

theorem auth_domain_create_idempotent_witness:
  "to_commit no_records = [] \<and> PyInt 1000 \<noteq> PyNone
   \<and> (\<exists>m h1 h2 r.
           auth_domain_create no_records ''d1'' None (Some (PyInt 1000)) PyNone [] = (Inr m, h1)
         \<and> auth_domain_create h1 ''d1'' None (Some (PyInt 1000)) PyNone [] = (Inr m, h2)
         \<and> store h2 = store h1
         \<and> store h2 ''sys/auth-realm/domain-d1'' = Some r
         \<and> dn r = ''sys/auth-realm/domain-d1''
         \<and> props r ''session_timeout'' = PyInt 1000
         \<and> store h2 ''sys/auth-realm/domain-d2'' = None)
   \<and> fst (auth_domain_create
             (snd (auth_domain_create no_records ''d1'' None (Some (PyInt 1000)) PyNone []))
             ''d1'' None (Some (PyInt 1000)) PyNone []) =
       Inr (AaaDomain ''sys/auth-realm'' ''d1'' (PyStr ''600'') (PyInt 1000) PyNone)
   \<and> store (snd (auth_domain_create
             (snd (auth_domain_create no_records ''d1'' None (Some (PyInt 1000)) PyNone []))
             ''d1'' None (Some (PyInt 1000)) PyNone [])) ''sys/auth-realm/domain-d1'' =
       Some (AaaDomain ''sys/auth-realm'' ''d1'' (PyStr ''600'') (PyInt 1000) PyNone)"
proof -
  let ?m = "AaaDomain ''sys/auth-realm'' ''d1'' (PyStr ''600'') (PyInt 1000) PyNone"
  let ?h1 = "\<lparr>store = (\<lambda>_. None)(''sys/auth-realm/domain-d1'' := Some ?m), to_commit = [],
              calls = [Stage (AddMo ?m True), Commit]\<rparr>"
  have h: "to_commit no_records = []" by (simp add: no_records_def)
  have v: "PyInt 1000 \<noteq> PyNone" by simp
  from auth_domain_create_idempotent [OF h v, of "''d1''"]
  obtain m h1 h2 r where
    "auth_domain_create no_records ''d1'' None (Some (PyInt 1000)) PyNone [] = (Inr m, h1)"
    "auth_domain_create h1 ''d1'' None (Some (PyInt 1000)) PyNone [] = (Inr m, h2)"
    "store h2 = store h1"
    "store h2 ''sys/auth-realm/domain-d1'' = Some r"
    "dn r = ''sys/auth-realm/domain-d1''"
    "props r ''session_timeout'' = PyInt 1000"
    and other: "\<forall>d. d \<noteq> ''sys/auth-realm/domain-d1'' \<longrightarrow> store h2 d = store no_records d"
    by auto
  moreover from other have "store h2 ''sys/auth-realm/domain-d2'' = None"
    by (simp add: no_records_def)
  ultimately have ex: "\<exists>m h1 h2 r.
           auth_domain_create no_records ''d1'' None (Some (PyInt 1000)) PyNone [] = (Inr m, h1)
         \<and> auth_domain_create h1 ''d1'' None (Some (PyInt 1000)) PyNone [] = (Inr m, h2)
         \<and> store h2 = store h1
         \<and> store h2 ''sys/auth-realm/domain-d1'' = Some r
         \<and> dn r = ''sys/auth-realm/domain-d1''
         \<and> props r ''session_timeout'' = PyInt 1000
         \<and> store h2 ''sys/auth-realm/domain-d2'' = None"
    by blast
  have first: "auth_domain_create no_records ''d1'' None (Some (PyInt 1000)) PyNone [] =
      (Inr ?m, ?h1)"
    by (simp add: auth_domain_create_ok h Let_def dflt_def set_prop_multiple_Nil
        auth_realm_dn_def no_records_def upsert_def dn_AaaDomain)
  have second: "auth_domain_create ?h1 ''d1'' None (Some (PyInt 1000)) PyNone [] =
      (Inr ?m,
       \<lparr>store = (\<lambda>_. None)(''sys/auth-realm/domain-d1'' := Some ?m), to_commit = [],
        calls = [Stage (AddMo ?m True), Commit, Stage (AddMo ?m True), Commit]\<rparr>)"
    by (simp add: auth_domain_create_ok Let_def dflt_def set_prop_multiple_Nil
        auth_realm_dn_def upsert_def dn_AaaDomain overwrite_same)
  have res: "fst (auth_domain_create
             (snd (auth_domain_create no_records ''d1'' None (Some (PyInt 1000)) PyNone []))
             ''d1'' None (Some (PyInt 1000)) PyNone []) = Inr ?m"
    by (simp add: first second)
  have stored: "store (snd (auth_domain_create
             (snd (auth_domain_create no_records ''d1'' None (Some (PyInt 1000)) PyNone []))
             ''d1'' None (Some (PyInt 1000)) PyNone [])) ''sys/auth-realm/domain-d1'' = Some ?m"
    by (simp add: first second)
  from h v ex res stored show ?thesis by (intro conjI)
qed

text \<open>
  Claim C3. \<open>auth_domain_modify\<close> requires an existing record. With no record at the
  resolved path it raises \<open>UcsOperationError\<close> from the lookup, names itself as the failing
  operation, stages nothing, commits nothing and leaves the remote tree unchanged, so no
  record is created. With a record there, on a handle with nothing staged, it applies the
  keyword arguments onto the fetched record, stages the result as an update, commits and
  returns the updated record.
\<close>

theorem auth_domain_modify_requires_existing:
  "(case store h (''sys/auth-realm/domain-'' @ name) of
      None \<Rightarrow>
        fst (auth_domain_modify h name kwargs) =
          Inl (UcsOperationError ''auth_domain_modify''
                 (''Auth Domain '' @ [CHR 0x27] @ ''sys/auth-realm/domain-'' @ name
                    @ [CHR 0x27] @ '' does not exist''))
        \<and> store (snd (auth_domain_modify h name kwargs)) = store h
        \<and> to_commit (snd (auth_domain_modify h name kwargs)) = to_commit h
        \<and> calls (snd (auth_domain_modify h name kwargs)) =
            calls h @ [Query (''sys/auth-realm/domain-'' @ name)]
    | Some m \<Rightarrow>
        to_commit h = [] \<longrightarrow>
        fst (auth_domain_modify h name kwargs) = Inr (set_prop_multiple m kwargs)
        \<and> calls (snd (auth_domain_modify h name kwargs)) =
            calls h @ [Query (''sys/auth-realm/domain-'' @ name),
                       Stage (SetMo (set_prop_multiple m kwargs)), Commit]
        \<and> to_commit (snd (auth_domain_modify h name kwargs)) = [])"
proof (cases "store h (''sys/auth-realm/domain-'' @ name)")
  case None
  then have "store h (auth_realm_dn @ ''/domain-'' @ name) = None"
    by (simp add: auth_realm_dn_def)
  then have "auth_domain_modify h name kwargs =
     (Inl (UcsOperationError ''auth_domain_modify''
        (not_exist_msg (auth_realm_dn @ ''/domain-'' @ name))),
      h\<lparr>calls := calls h @ [Query (auth_realm_dn @ ''/domain-'' @ name)]\<rparr>)"
    by (simp add: auth_domain_modify_def auth_domain_get_absent dflt_def)
  with None show ?thesis
    by (simp add: not_exist_msg_def auth_realm_dn_def)
next
  case (Some m)
  then have present: "store h (auth_realm_dn @ ''/domain-'' @ name) = Some m"
    by (simp add: auth_realm_dn_def)
  show ?thesis
  proof (cases "to_commit h = []")
    case True
    with present have "auth_domain_modify h name kwargs =
       (Inr (set_prop_multiple m kwargs),
        h\<lparr>to_commit := [],
           calls := calls h @ [Query (auth_realm_dn @ ''/domain-'' @ name),
                               Stage (SetMo (set_prop_multiple m kwargs)), Commit],
           store := upsert (store h) (set_prop_multiple m kwargs)\<rparr>)"
      by (simp add: auth_domain_modify_ok)
    with Some True show ?thesis
      by (simp add: auth_realm_dn_def)
  next
    case False
    with Some show ?thesis by auto
  qed
qed

text \<open>
  \<^verbatim>\<open>modify(h, "missing-domain", session_timeout="1000")\<close> on an empty tree, and the same
  change of \<^verbatim>\<open>d1\<close> on a tree that holds it.
\<close>

theorem auth_domain_modify_requires_existing_witness:
  "store no_records ''sys/auth-realm/domain-missing-domain'' = None
   \<and> fst (auth_domain_modify no_records ''missing-domain'' [(''session_timeout'', PyStr ''1000'')]) =
       Inl (UcsOperationError ''auth_domain_modify''
              ''Auth Domain 'sys/auth-realm/domain-missing-domain' does not exist'')
   \<and> store (snd (auth_domain_modify no_records ''missing-domain''
               [(''session_timeout'', PyStr ''1000'')])) ''sys/auth-realm/domain-missing-domain'' = None
   \<and> calls (snd (auth_domain_modify no_records ''missing-domain''
               [(''session_timeout'', PyStr ''1000'')])) =
       [Query ''sys/auth-realm/domain-missing-domain'']
   \<and> store with_d1 ''sys/auth-realm/domain-d1'' = Some d1_record
   \<and> to_commit with_d1 = []
   \<and> fst (auth_domain_modify with_d1 ''d1'' [(''session_timeout'', PyStr ''1000'')]) =
       Inr (set_prop_multiple d1_record [(''session_timeout'', PyStr ''1000'')])
   \<and> props (set_prop_multiple d1_record [(''session_timeout'', PyStr ''1000'')])
        ''session_timeout'' = PyStr ''1000''
   \<and> props (set_prop_multiple d1_record [(''session_timeout'', PyStr ''1000'')])
        ''refresh_period'' = PyStr ''600''
   \<and> calls (snd (auth_domain_modify with_d1 ''d1'' [(''session_timeout'', PyStr ''1000'')])) =
       [Query ''sys/auth-realm/domain-d1'',
        Stage (SetMo (set_prop_multiple d1_record [(''session_timeout'', PyStr ''1000'')])),
        Commit]"
  using auth_domain_modify_requires_existing
      [of no_records "''missing-domain''" "[(''session_timeout'', PyStr ''1000'')]"]
    auth_domain_modify_requires_existing
      [of with_d1 "''d1''" "[(''session_timeout'', PyStr ''1000'')]"]
  by (simp add: no_records_def with_d1_def d1_record_def dn_AaaDomain props_AaaDomain
      set_prop_multiple_def)

text \<open>
  Claim C4. For every name \<open>n\<close> with no record at \<^verbatim>\<open>sys/auth-realm/domain-<n>\<close>,
  \<open>auth_domain_get\<close> raises \<open>UcsOperationError\<close>: its operation name is the caller's name
  (\<^verbatim>\<open>auth_domain_get\<close> when no caller is given) and its message carries the resolved
  path. The only call made on the handle is the lookup: nothing is staged or committed
  and the remote store is unchanged.
\<close>

theorem auth_domain_get_not_found:
  assumes "store h (''sys/auth-realm/domain-'' @ n) = None"
  shows "fst (auth_domain_get h n caller) =
           Inl (UcsOperationError
                  (case caller of None \<Rightarrow> ''auth_domain_get'' | Some c \<Rightarrow> c)
                  (''Auth Domain '' @ [CHR 0x27] @ ''sys/auth-realm/domain-'' @ n @ [CHR 0x27]
                     @ '' does not exist''))
       \<and> store (snd (auth_domain_get h n caller)) = store h
       \<and> to_commit (snd (auth_domain_get h n caller)) = to_commit h
       \<and> calls (snd (auth_domain_get h n caller)) =
           calls h @ [Query (''sys/auth-realm/domain-'' @ n)]"
proof -
  from assms have "store h (auth_realm_dn @ ''/domain-'' @ n) = None"
    by (simp add: auth_realm_dn_def)
  then show ?thesis
    by (simp add: auth_domain_get_absent not_exist_msg_def auth_realm_dn_def dflt_def)
qed

text \<open>The lookup of \<^verbatim>\<open>d1\<close> on an empty store, called from \<^verbatim>\<open>auth_domain_exists\<close>.\<close>

theorem auth_domain_get_not_found_witness:
  "store \<lparr>store = (\<lambda>_. None), to_commit = [], calls = []\<rparr> (''sys/auth-realm/domain-'' @ ''d1'') = None
   \<and> fst (auth_domain_get \<lparr>store = (\<lambda>_. None), to_commit = [], calls = []\<rparr> ''d1''
            (Some ''auth_domain_exists'')) =
       Inl (UcsOperationError ''auth_domain_exists''
              ''Auth Domain 'sys/auth-realm/domain-d1' does not exist'')
   \<and> calls (snd (auth_domain_get \<lparr>store = (\<lambda>_. None), to_commit = [], calls = []\<rparr> ''d1''
            (Some ''auth_domain_exists''))) = [Query ''sys/auth-realm/domain-d1'']"
  using auth_domain_get_not_found
    [of "\<lparr>store = (\<lambda>_. None), to_commit = [], calls = []\<rparr>" "''d1''" "Some ''auth_domain_exists''"]
  by simp

text \<open>
  Claim C5. \<open>auth_domain_exists\<close> returns \<^verbatim>\<open>(True, record)\<close> exactly when a record is stored
  at the resolved path and every expected property equals the record's field; in every
  other case (no record, where the error of the lookup is caught, or a field that
  differs) it returns \<^verbatim>\<open>(False, None)\<close>. The lookup is the only call it makes on the
  handle: it never stages or commits.
\<close>

theorem auth_domain_exists_iff:
  "(fst (auth_domain_exists h name kwargs) = Inr (True, Some m) \<longleftrightarrow>
      store h (''sys/auth-realm/domain-'' @ name) = Some m
      \<and> (\<forall>(k, v) \<in> set kwargs. props m k = v))
   \<and> ((\<nexists>r. store h (''sys/auth-realm/domain-'' @ name) = Some r
             \<and> (\<forall>(k, v) \<in> set kwargs. props r k = v)) \<longrightarrow>
        fst (auth_domain_exists h name kwargs) = Inr (False, None))
   \<and> store (snd (auth_domain_exists h name kwargs)) = store h
   \<and> to_commit (snd (auth_domain_exists h name kwargs)) = to_commit h
   \<and> calls (snd (auth_domain_exists h name kwargs)) =
       calls h @ [Query (''sys/auth-realm/domain-'' @ name)]"
proof -
  let ?d = "''sys/auth-realm/domain-'' @ name"
  have res: "fst (auth_domain_exists h name kwargs) =
      Inr (case store h ?d of
             None \<Rightarrow> (False, None)
           | Some r \<Rightarrow> if check_prop_match r kwargs then (True, Some r) else (False, None))"
    by (simp add: auth_domain_exists_eq auth_realm_dn_def)
  have "fst (auth_domain_exists h name kwargs) = Inr (True, Some m) \<longleftrightarrow>
      store h ?d = Some m \<and> (\<forall>(k, v) \<in> set kwargs. props m k = v)"
    unfolding res check_prop_match_iff [symmetric]
    by (cases "store h ?d") auto
  moreover have "(\<nexists>r. store h ?d = Some r \<and> (\<forall>(k, v) \<in> set kwargs. props r k = v)) \<longrightarrow>
        fst (auth_domain_exists h name kwargs) = Inr (False, None)"
    unfolding res check_prop_match_iff [symmetric]
    by (cases "store h ?d") auto
  moreover have "snd (auth_domain_exists h name kwargs) = h\<lparr>calls := calls h @ [Query ?d]\<rparr>"
    by (simp add: auth_domain_exists_eq auth_realm_dn_def)
  ultimately show ?thesis by simp
qed

text \<open>
  The record \<^verbatim>\<open>d1\<close> with its default timeout: found when "7200" is expected, not found
  when "1000" is expected, and not found on an empty tree.
\<close>

theorem auth_domain_exists_iff_witness:
  "fst (auth_domain_exists with_d1 ''d1'' [(''session_timeout'', PyStr ''7200'')]) =
     Inr (True, Some d1_record)
   \<and> store with_d1 ''sys/auth-realm/domain-d1'' = Some d1_record
   \<and> props d1_record ''session_timeout'' = PyStr ''7200''
   \<and> fst (auth_domain_exists with_d1 ''d1'' [(''session_timeout'', PyStr ''1000'')]) =
     Inr (False, None)
   \<and> fst (auth_domain_exists no_records ''d1'' []) = Inr (False, None)
   \<and> calls (snd (auth_domain_exists with_d1 ''d1'' [(''session_timeout'', PyStr ''1000'')])) =
     [Query ''sys/auth-realm/domain-d1'']"
  using auth_domain_exists_iff
      [of with_d1 "''d1''" "[(''session_timeout'', PyStr ''7200'')]" d1_record]
    auth_domain_exists_iff
      [of with_d1 "''d1''" "[(''session_timeout'', PyStr ''1000'')]" d1_record]
    auth_domain_exists_iff [of no_records "''d1''" "[]" d1_record]
  by (simp add: no_records_def with_d1_def d1_record_def props_AaaDomain)

text \<open>
  Claim C6. \<open>auth_domain_delete\<close> raises \<open>UcsOperationError\<close> when no record is stored at the
  resolved path, and then changes nothing. When the record is there (stored under its
  own path, on a handle with nothing staged) it stages its removal, commits and returns
  nothing; the path is then empty, and a lookup of the same name raises
  \<open>UcsOperationError\<close>.
\<close>

theorem auth_domain_delete_then_get:
  "(case store h (''sys/auth-realm/domain-'' @ name) of
      None \<Rightarrow>
        fst (auth_domain_delete h name) =
          Inl (UcsOperationError ''auth_domain_delete''
                 (''Auth Domain '' @ [CHR 0x27] @ ''sys/auth-realm/domain-'' @ name
                    @ [CHR 0x27] @ '' does not exist''))
        \<and> store (snd (auth_domain_delete h name)) = store h
        \<and> to_commit (snd (auth_domain_delete h name)) = to_commit h
        \<and> calls (snd (auth_domain_delete h name)) =
            calls h @ [Query (''sys/auth-realm/domain-'' @ name)]
    | Some m \<Rightarrow>
        dn m = ''sys/auth-realm/domain-'' @ name \<and> to_commit h = [] \<longrightarrow>
        fst (auth_domain_delete h name) = Inr ()
        \<and> calls (snd (auth_domain_delete h name)) =
            calls h @ [Query (''sys/auth-realm/domain-'' @ name), Stage (RemoveMo m), Commit]
        \<and> to_commit (snd (auth_domain_delete h name)) = []
        \<and> store (snd (auth_domain_delete h name)) =
            (store h)(''sys/auth-realm/domain-'' @ name := None)
        \<and> fst (auth_domain_get (snd (auth_domain_delete h name)) name None) =
            Inl (UcsOperationError ''auth_domain_get''
                   (''Auth Domain '' @ [CHR 0x27] @ ''sys/auth-realm/domain-'' @ name
                      @ [CHR 0x27] @ '' does not exist'')))"
proof (cases "store h (''sys/auth-realm/domain-'' @ name)")
  case None
  then have "store h (auth_realm_dn @ ''/domain-'' @ name) = None"
    by (simp add: auth_realm_dn_def)
  then have "auth_domain_delete h name =
     (Inl (UcsOperationError ''auth_domain_delete''
        (not_exist_msg (auth_realm_dn @ ''/domain-'' @ name))),
      h\<lparr>calls := calls h @ [Query (auth_realm_dn @ ''/domain-'' @ name)]\<rparr>)"
    by (simp add: auth_domain_delete_def auth_domain_get_absent dflt_def)
  with None show ?thesis
    by (simp add: not_exist_msg_def auth_realm_dn_def)
next
  case (Some m)
  then have present: "store h (auth_realm_dn @ ''/domain-'' @ name) = Some m"
    by (simp add: auth_realm_dn_def)
  show ?thesis
  proof (cases "dn m = ''sys/auth-realm/domain-'' @ name \<and> to_commit h = []")
    case True
    define h' where "h' = h\<lparr>to_commit := [],
           calls := calls h @ [Query (auth_realm_dn @ ''/domain-'' @ name),
                               Stage (RemoveMo m), Commit],
           store := (store h)(dn m := None)\<rparr>"
    from present True have del: "auth_domain_delete h name = (Inr (), h')"
      by (simp add: auth_domain_delete_ok h'_def)
    from True have "store h' (auth_realm_dn @ ''/domain-'' @ name) = None"
      by (simp add: h'_def auth_realm_dn_def)
    then have "fst (auth_domain_get h' name None) =
        Inl (UcsOperationError ''auth_domain_get''
          (not_exist_msg (auth_realm_dn @ ''/domain-'' @ name)))"
      by (simp add: auth_domain_get_absent dflt_def)
    with del Some True show ?thesis
      by (simp add: h'_def auth_realm_dn_def not_exist_msg_def)
  next
    case False
    with Some show ?thesis by auto
  qed
qed

text \<open>Deleting \<^verbatim>\<open>d1\<close> from an empty tree, and from a tree that holds it.\<close>

theorem auth_domain_delete_then_get_witness:
  "store no_records ''sys/auth-realm/domain-d1'' = None
   \<and> fst (auth_domain_delete no_records ''d1'') =
       Inl (UcsOperationError ''auth_domain_delete''
              ''Auth Domain 'sys/auth-realm/domain-d1' does not exist'')
   \<and> store with_d1 ''sys/auth-realm/domain-d1'' = Some d1_record
   \<and> dn d1_record = ''sys/auth-realm/domain-d1'' \<and> to_commit with_d1 = []
   \<and> fst (auth_domain_delete with_d1 ''d1'') = Inr ()
   \<and> calls (snd (auth_domain_delete with_d1 ''d1'')) =
       [Query ''sys/auth-realm/domain-d1'', Stage (RemoveMo d1_record), Commit]
   \<and> store (snd (auth_domain_delete with_d1 ''d1'')) ''sys/auth-realm/domain-d1'' = None
   \<and> fst (auth_domain_get (snd (auth_domain_delete with_d1 ''d1'')) ''d1'' None) =
       Inl (UcsOperationError ''auth_domain_get''
              ''Auth Domain 'sys/auth-realm/domain-d1' does not exist'')"
  using auth_domain_delete_then_get [of no_records "''d1''"]
    auth_domain_delete_then_get [of with_d1 "''d1''"]
  by (simp add: no_records_def with_d1_def d1_record_def dn_AaaDomain)

text \<open>
  Claim C7. For every domain name with no Auth Domain record at the resolved path,
  \<open>auth_domain_realm_configure\<close> raises \<open>UcsOperationError\<close> and the lookup of the parent is
  the only call it makes on the handle: no child record is staged, nothing is committed,
  and the remote store is unchanged.
\<close>

theorem auth_domain_realm_configure_missing_parent:
  assumes "store h (''sys/auth-realm/domain-'' @ domain_name) = None"
  shows "fst (auth_domain_realm_configure rn_of h domain_name realm use2_factor
                provider_group name descr kwargs) =
           Inl (UcsOperationError ''auth_domain_realm_configure''
                  (''Auth Domain '' @ [CHR 0x27] @ ''sys/auth-realm/domain-'' @ domain_name
                     @ [CHR 0x27] @ '' does not exist''))
       \<and> store (snd (auth_domain_realm_configure rn_of h domain_name realm use2_factor
                provider_group name descr kwargs)) = store h
       \<and> to_commit (snd (auth_domain_realm_configure rn_of h domain_name realm use2_factor
                provider_group name descr kwargs)) = to_commit h
       \<and> calls (snd (auth_domain_realm_configure rn_of h domain_name realm use2_factor
                provider_group name descr kwargs)) =
           calls h @ [Query (''sys/auth-realm/domain-'' @ domain_name)]"
proof -
  from assms have "store h (auth_realm_dn @ ''/domain-'' @ domain_name) = None"
    by (simp add: auth_realm_dn_def)
  then show ?thesis
    by (simp add: auth_domain_realm_configure_def auth_domain_get_absent not_exist_msg_def
        auth_realm_dn_def dflt_def)
qed

text \<open>\<^verbatim>\<open>auth_domain_realm_configure(h, "missing-domain")\<close> on an empty tree.\<close>

theorem auth_domain_realm_configure_missing_parent_witness:
  "store no_records (''sys/auth-realm/domain-'' @ ''missing-domain'') = None
   \<and> fst (auth_domain_realm_configure example_rn no_records ''missing-domain'' None None
            PyNone PyNone PyNone []) =
       Inl (UcsOperationError ''auth_domain_realm_configure''
              ''Auth Domain 'sys/auth-realm/domain-missing-domain' does not exist'')
   \<and> to_commit (snd (auth_domain_realm_configure example_rn no_records ''missing-domain''
            None None PyNone PyNone PyNone [])) = []
   \<and> calls (snd (auth_domain_realm_configure example_rn no_records ''missing-domain''
            None None PyNone PyNone PyNone [])) =
       [Query ''sys/auth-realm/domain-missing-domain'']"
  using auth_domain_realm_configure_missing_parent
    [of no_records "''missing-domain''" example_rn None None PyNone PyNone PyNone "[]"]
  by (simp add: no_records_def)

text \<open>
  Claim C8. When the parent domain exists (on a handle with nothing staged),
  \<open>auth_domain_realm_configure\<close> called with the boolean \<open>use2_factor = b\<close> stages a record
  whose \<^verbatim>\<open>use2_factor\<close> field is the string "yes" for \<^verbatim>\<open>True\<close> and "no" for \<^verbatim>\<open>False\<close>, never
  the boolean. Python binds the keyword \<^verbatim>\<open>use2_factor\<close> to the parameter of that name, so
  \<^verbatim>\<open>**kwargs\<close> never holds that key: this is the third assumption.
\<close>

theorem auth_domain_realm_configure_use2_factor:
  assumes "store h (''sys/auth-realm/domain-'' @ domain_name) = Some obj"
    and "to_commit h = []"
    and "''use2_factor'' \<notin> fst ` set kwargs"
  shows "\<exists>m h'.
           auth_domain_realm_configure rn_of h domain_name realm (Some b) provider_group name
             descr kwargs = (Inr m, h')
         \<and> calls h' =
             calls h @ [Query (''sys/auth-realm/domain-'' @ domain_name), Stage (SetMo m), Commit]
         \<and> props m ''use2_factor'' = PyStr (if b then ''yes'' else ''no'')
         \<and> props m ''use2_factor'' \<noteq> PyBool b"
proof -
  define m where "m = set_prop_multiple
      (AaaDomainAuth rn_of obj (dflt (PyStr ''local'') realm)
         (PyStr ([''no'', ''yes''] ! of_bool (dflt False (Some b)))) provider_group name descr)
      kwargs"
  define h1 where "h1 = h\<lparr>calls := calls h @ [Query (auth_realm_dn @ ''/domain-'' @ domain_name)]\<rparr>"
  have present: "store h (auth_realm_dn @ ''/domain-'' @ domain_name) = Some obj"
    using assms(1) by (simp add: auth_realm_dn_def)
  have "to_commit h1 = []" using assms(2) by (simp add: h1_def)
  then have "commit (stage h1 (SetMo m)) =
      (Inr (), h1\<lparr>to_commit := [], calls := calls h1 @ [Stage (SetMo m), Commit],
                  store := upsert (store h1) m\<rparr>)"
    by (simp add: commit_stage_ok)
  then have run: "auth_domain_realm_configure rn_of h domain_name realm (Some b) provider_group
      name descr kwargs =
      (Inr m, h1\<lparr>to_commit := [], calls := calls h1 @ [Stage (SetMo m), Commit],
                  store := upsert (store h1) m\<rparr>)"
    unfolding auth_domain_realm_configure_present [OF present] m_def [symmetric] h1_def [symmetric]
    by simp
  have "props m ''use2_factor'' = PyStr ([''no'', ''yes''] ! of_bool b)"
    using assms(3) by (simp add: m_def props_set_prop_multiple_other props_AaaDomainAuth dflt_def)
  then have u2f: "props m ''use2_factor'' = PyStr (if b then ''yes'' else ''no'')"
    by (simp only: yes_no)
  have "calls (h1\<lparr>to_commit := [], calls := calls h1 @ [Stage (SetMo m), Commit],
                  store := upsert (store h1) m\<rparr>) =
      calls h @ [Query (''sys/auth-realm/domain-'' @ domain_name), Stage (SetMo m), Commit]"
    by (simp add: h1_def auth_realm_dn_def)
  with run u2f show ?thesis by auto
qed

text \<open>\<^verbatim>\<open>auth_domain_realm_configure(h, "d1", use2_factor=True, descr="two factor")\<close>\<close>

theorem auth_domain_realm_configure_use2_factor_witness:
  "store with_d1 (''sys/auth-realm/domain-'' @ ''d1'') = Some d1_record
   \<and> to_commit with_d1 = []
   \<and> ''use2_factor'' \<notin> fst ` set [(''descr'', PyStr ''two factor'')]
   \<and> (\<exists>m h'.
           auth_domain_realm_configure example_rn with_d1 ''d1'' None (Some True) PyNone PyNone
             PyNone [(''descr'', PyStr ''two factor'')] = (Inr m, h')
         \<and> calls h' = calls with_d1 @ [Query ''sys/auth-realm/domain-d1'', Stage (SetMo m), Commit]
         \<and> props m ''use2_factor'' = PyStr ''yes''
         \<and> props m ''use2_factor'' \<noteq> PyBool True)
   \<and> fst (auth_domain_realm_configure example_rn with_d1 ''d1'' None (Some True) PyNone PyNone
            PyNone [(''descr'', PyStr ''two factor'')]) =
       Inr \<lparr>class_id = ''AaaDomainAuth'', dn = ''sys/auth-realm/domain-d1/domain-auth'',
            props = (\<lambda>_. PyNone)(''realm'' := PyStr ''local'', ''use2_factor'' := PyStr ''yes'',
                      ''provider_group'' := PyNone, ''name'' := PyNone,
                      ''descr'' := PyStr ''two factor'')\<rparr>"
proof -
  have a: "store with_d1 (''sys/auth-realm/domain-'' @ ''d1'') = Some d1_record"
    by (simp add: with_d1_def)
  have a': "store with_d1 (auth_realm_dn @ ''/domain-'' @ ''d1'') = Some d1_record"
    by (simp add: with_d1_def auth_realm_dn_def)
  have b: "to_commit with_d1 = []" by (simp add: with_d1_def)
  have c: "''use2_factor'' \<notin> fst ` set [(''descr'', PyStr ''two factor'')]" by simp
  have ex: "\<exists>m h'.
           auth_domain_realm_configure example_rn with_d1 ''d1'' None (Some True) PyNone PyNone
             PyNone [(''descr'', PyStr ''two factor'')] = (Inr m, h')
         \<and> calls h' = calls with_d1 @ [Query ''sys/auth-realm/domain-d1'', Stage (SetMo m), Commit]
         \<and> props m ''use2_factor'' = PyStr ''yes''
         \<and> props m ''use2_factor'' \<noteq> PyBool True"
    using auth_domain_realm_configure_use2_factor
      [OF a b c, of example_rn None True PyNone PyNone PyNone]
    by simp
  have ev: "fst (auth_domain_realm_configure example_rn with_d1 ''d1'' None (Some True) PyNone
            PyNone PyNone [(''descr'', PyStr ''two factor'')]) =
       Inr \<lparr>class_id = ''AaaDomainAuth'', dn = ''sys/auth-realm/domain-d1/domain-auth'',
            props = (\<lambda>_. PyNone)(''realm'' := PyStr ''local'', ''use2_factor'' := PyStr ''yes'',
                      ''provider_group'' := PyNone, ''name'' := PyNone,
                      ''descr'' := PyStr ''two factor'')\<rparr>"
    by (simp add: auth_domain_realm_configure_present [OF a'] commit_stage_ok b
        AaaDomainAuth_def ManagedObject_def set_prop_multiple_def dflt_def example_rn_def
        d1_record_def dn_AaaDomain)
  from a b c ex ev show ?thesis by (intro conjI)
qed

text \<open>
  Claim C9. \<open>native_auth_configure\<close> is an unconditional upsert at the fixed path under
  \<^verbatim>\<open>sys\<close>. For every input it makes exactly two calls on the handle, an update of a
  record of class \<^verbatim>\<open>AaaAuthRealm\<close> under \<^verbatim>\<open>sys\<close> and a commit, with no lookup before
  them, and it never raises \<open>UcsOperationError\<close>. The record is fresh: a property that is
  neither one of the four named fields nor a key of the extension map is unset. Each
  named field that was given holds the given value, and one that is absent (\<^verbatim>\<open>None\<close>)
  holds what the fresh record holds. The extension map is applied last. On a handle
  with nothing staged the call returns the record, and in the remote tree a named field
  that was absent keeps the value stored before rather than being emptied.
\<close>

theorem native_auth_configure_upsert:
  "\<exists>m. calls (snd (native_auth_configure rn_of h def_role_policy def_login con_login descr kwargs)) =
          calls h @ [Stage (SetMo m), Commit]
      \<and> class_id m = ''AaaAuthRealm''
      \<and> dn m = ''sys/'' @ rn_of ''AaaAuthRealm''
      \<and> (\<forall>(k, a) \<in> set [(''def_role_policy'', def_role_policy), (''def_login'', def_login),
                          (''con_login'', con_login), (''descr'', descr)].
            k \<notin> fst ` set kwargs \<longrightarrow>
            props m k = (if a = PyNone then props (AaaAuthRealm rn_of ''sys'') k else a))
      \<and> (\<forall>k. k \<notin> {''def_role_policy'', ''def_login'', ''con_login'', ''descr''} \<union> fst ` set kwargs
            \<longrightarrow> props m k = PyNone)
      \<and> (distinct (map fst kwargs) \<longrightarrow> (\<forall>(k, v) \<in> set kwargs. props m k = v))
      \<and> (\<forall>c msg. fst (native_auth_configure rn_of h def_role_policy def_login con_login descr
                         kwargs) \<noteq> Inl (UcsOperationError c msg))
      \<and> (to_commit h = [] \<longrightarrow>
            fst (native_auth_configure rn_of h def_role_policy def_login con_login descr kwargs) =
              Inr m
          \<and> (\<exists>r. store (snd (native_auth_configure rn_of h def_role_policy def_login con_login
                               descr kwargs)) (dn m) = Some r
                \<and> (\<forall>(k, a) \<in> set [(''def_role_policy'', def_role_policy),
                                    (''def_login'', def_login), (''con_login'', con_login),
                                    (''descr'', descr)].
                      k \<notin> fst ` set kwargs \<longrightarrow>
                      props r k =
                        (if a = PyNone
                         then (case store h (dn m) of None \<Rightarrow> PyNone | Some old \<Rightarrow> props old k)
                         else a))))"
proof -
  let ?args = "[(''def_role_policy'', def_role_policy), (''def_login'', def_login),
                (''con_login'', con_login), (''descr'', descr)]"
  let ?run = "native_auth_configure rn_of h def_role_policy def_login con_login descr kwargs"
  define m1 where "m1 = set_prop_multiple (AaaAuthRealm rn_of ''sys'') ?args"
  define m where "m = set_prop_multiple m1 kwargs"
  have run: "?run = (case commit (stage h (SetMo m)) of
        (Inl e, h2) \<Rightarrow> (Inl e, h2) | (Inr _, h2) \<Rightarrow> (Inr m, h2))"
    by (simp only: native_auth_configure_eq m_def m1_def)
  have calls: "calls (snd ?run) = calls h @ [Stage (SetMo m), Commit]"
    by (simp only: run snd_submit calls_commit_stage)
  have cid: "class_id m = ''AaaAuthRealm''"
    by (simp add: m_def m1_def class_id_set_prop_multiple class_id_AaaAuthRealm)
  have dn_m: "dn m = ''sys/'' @ rn_of ''AaaAuthRealm''"
    by (simp add: m_def m1_def dn_set_prop_multiple dn_AaaAuthRealm)
  have m1: "props m1 = (\<lambda>_. PyNone)(''def_role_policy'' := def_role_policy,
      ''def_login'' := def_login, ''con_login'' := con_login, ''descr'' := descr)"
    by (simp only: m1_def props_native_args)
  have keep: "props m k = props m1 k" if "k \<notin> fst ` set kwargs" for k
    using that by (simp add: m_def props_set_prop_multiple_other)
  have named: "\<forall>(k, a) \<in> set ?args. k \<notin> fst ` set kwargs \<longrightarrow>
      props m k = (if a = PyNone then props (AaaAuthRealm rn_of ''sys'') k else a)"
    by (simp add: keep m1 props_AaaAuthRealm)
  have unset: "\<forall>k. k \<notin> {''def_role_policy'', ''def_login'', ''con_login'', ''descr''}
      \<union> fst ` set kwargs \<longrightarrow> props m k = PyNone"
    by (simp add: keep m1)
  have overlay: "distinct (map fst kwargs) \<longrightarrow> (\<forall>(k, v) \<in> set kwargs. props m k = v)"
    by (auto simp: m_def props_set_prop_multiple_mem)
  have no_op_error: "\<forall>c msg. fst ?run \<noteq> Inl (UcsOperationError c msg)"
    by (simp only: run fst_submit_error) simp
  have committed: "fst ?run = Inr m
      \<and> (\<exists>r. store (snd ?run) (dn m) = Some r
            \<and> (\<forall>(k, a) \<in> set ?args. k \<notin> fst ` set kwargs \<longrightarrow>
                  props r k =
                    (if a = PyNone
                     then (case store h (dn m) of None \<Rightarrow> PyNone | Some old \<Rightarrow> props old k)
                     else a)))"
    if empty: "to_commit h = []"
  proof -
    from empty have "commit (stage h (SetMo m)) =
        (Inr (), h\<lparr>to_commit := [], calls := calls h @ [Stage (SetMo m), Commit],
                   store := upsert (store h) m\<rparr>)"
      by (simp add: commit_stage_ok)
    with run have eq: "?run =
        (Inr m, h\<lparr>to_commit := [], calls := calls h @ [Stage (SetMo m), Commit],
                   store := upsert (store h) m\<rparr>)"
      by simp
    have "\<forall>(k, a) \<in> set ?args. k \<notin> fst ` set kwargs \<longrightarrow>
        props (case store h (dn m) of None \<Rightarrow> m | Some old \<Rightarrow> overwrite old m) k =
          (if a = PyNone
           then (case store h (dn m) of None \<Rightarrow> PyNone | Some old \<Rightarrow> props old k)
           else a)"
      by (cases "store h (dn m)") (simp_all add: props_overwrite keep m1)
    with eq show ?thesis by (simp add: upsert_at)
  qed
  from calls cid dn_m named unset overlay no_op_error committed show ?thesis
    by blast
qed

text \<open>
  \<^verbatim>\<open>native_auth_configure(h, con_login="local")\<close> on a tree whose native realm has both
  logins set to "ldap": the console login changes, the default login stays.
\<close>

theorem native_auth_configure_upsert_witness:
  "to_commit with_auth_realm = []
   \<and> distinct (map fst ([] :: (string \<times> pyval) list))
   \<and> (\<exists>m. calls (snd (native_auth_configure example_rn with_auth_realm PyNone PyNone
                        (PyStr ''local'') PyNone [])) = [Stage (SetMo m), Commit]
         \<and> dn m = ''sys/auth-realm''
         \<and> props m ''con_login'' = PyStr ''local''
         \<and> props m ''def_login'' = PyNone
         \<and> fst (native_auth_configure example_rn with_auth_realm PyNone PyNone
                  (PyStr ''local'') PyNone []) = Inr m
         \<and> (\<exists>r. store (snd (native_auth_configure example_rn with_auth_realm PyNone PyNone
                        (PyStr ''local'') PyNone [])) ''sys/auth-realm'' = Some r
               \<and> props r ''con_login'' = PyStr ''local''
               \<and> props r ''def_login'' = PyStr ''ldap''))"
proof -
  let ?run = "native_auth_configure example_rn with_auth_realm PyNone PyNone (PyStr ''local'')
                PyNone []"
  let ?args = "[(''def_role_policy'', PyNone), (''def_login'', PyNone),
                (''con_login'', PyStr ''local''), (''descr'', PyNone)]"
  have empty: "to_commit with_auth_realm = []"
    by (simp add: with_auth_realm_def)
  from native_auth_configure_upsert
    [of example_rn with_auth_realm PyNone PyNone "PyStr ''local''" PyNone "[]"]
  obtain m where calls: "calls (snd ?run) = calls with_auth_realm @ [Stage (SetMo m), Commit]"
    and dn_m: "dn m = ''sys/'' @ example_rn ''AaaAuthRealm''"
    and named: "\<forall>(k, a) \<in> set ?args. k \<notin> fst ` set ([] :: (string \<times> pyval) list) \<longrightarrow>
        props m k = (if a = PyNone then props (AaaAuthRealm example_rn ''sys'') k else a)"
    and committed: "to_commit with_auth_realm = [] \<longrightarrow>
        fst ?run = Inr m
        \<and> (\<exists>r. store (snd ?run) (dn m) = Some r
              \<and> (\<forall>(k, a) \<in> set ?args. k \<notin> fst ` set ([] :: (string \<times> pyval) list) \<longrightarrow>
                    props r k =
                      (if a = PyNone
                       then (case store with_auth_realm (dn m) of
                               None \<Rightarrow> PyNone | Some old \<Rightarrow> props old k)
                       else a)))"
    by (elim exE conjE) (rule that)
  have path: "dn m = ''sys/auth-realm''"
    using dn_m by (simp add: example_rn_def)
  have stored: "store with_auth_realm ''sys/auth-realm'' = Some auth_realm_record"
    by (simp add: with_auth_realm_def)
  from committed empty path obtain r where ok: "fst ?run = Inr m"
    and r: "store (snd ?run) ''sys/auth-realm'' = Some r"
    and kept: "\<forall>(k, a) \<in> set ?args. k \<notin> fst ` set ([] :: (string \<times> pyval) list) \<longrightarrow>
        props r k =
          (if a = PyNone
           then (case store with_auth_realm ''sys/auth-realm'' of
                   None \<Rightarrow> PyNone | Some old \<Rightarrow> props old k)
           else a)"
    by auto
  have "calls (snd ?run) = [Stage (SetMo m), Commit]"
    using calls by (simp add: with_auth_realm_def)
  moreover have "props m ''con_login'' = PyStr ''local''" "props m ''def_login'' = PyNone"
    using named by (simp_all add: props_AaaAuthRealm)
  moreover have "props r ''con_login'' = PyStr ''local''" "props r ''def_login'' = PyStr ''ldap''"
    using kept by (simp_all add: stored auth_realm_record_def)
  ultimately show ?thesis
    using empty path ok r by auto
qed




end
